theory Spec2Isabelle
  imports Complex_Main "HOL-Library.Word"
begin

section \<open>Conventions of the embedding\<close>

text \<open>
  The Go sources embedded here are \<^verbatim>\<open>devices/types.go\<close>, \<^verbatim>\<open>devices/manager.go\<close>,
  \<^verbatim>\<open>events/types.go\<close>, \<^verbatim>\<open>events/bus.go\<close>, \<^verbatim>\<open>mqtt.go\<close> and \<^verbatim>\<open>hap.go\<close>.

  \<^item> A Go struct is a record. Several structs share field names (\<^verbatim>\<open>ID\<close>, \<^verbatim>\<open>On\<close>, ...), so every
    record field carries a short prefix naming its struct: \<open>dev_\<close> for \<^verbatim>\<open>Device\<close>, \<open>st_\<close> for
    \<^verbatim>\<open>State\<close>, \<open>sc_\<close> for \<^verbatim>\<open>StateChangedEvent\<close>, \<open>ev_\<close> for \<^verbatim>\<open>StateUpdateEvent\<close>, \<open>dm_\<close> for
    \<^verbatim>\<open>Manager\<close>, \<open>acc_\<close> for \<^verbatim>\<open>AccessoryInfo\<close>, \<open>hm_\<close> for \<^verbatim>\<open>HAPManager\<close>.
  \<^item> A nullable pointer field (\<^verbatim>\<open>*bool\<close>, \<^verbatim>\<open>*int\<close>, \<^verbatim>\<open>*float64\<close>) is an \<open>option\<close>. The code never
    writes through such a pointer after creating it, so sharing between structs is invisible
    and the pointee is stored by value.
  \<^item> Go \<^verbatim>\<open>int\<close> is \<open>int\<close>; the arithmetic that is modelled stays far inside 64 bits because
    both brightness conversions clamp before they compute. The \<^verbatim>\<open>atomic.Uint64\<close> counter is a
    \<open>64 word\<close>.
  \<^item> \<^verbatim>\<open>float64\<close> is \<open>real\<close>: values are taken to be finite (a JSON document cannot carry NaN or
    an infinity) and rounding is discussed where it could matter.
  \<^item> \<^verbatim>\<open>time.Time\<close> is an instant in nanoseconds relative to the Unix epoch; \<^verbatim>\<open>time.Duration\<close> is
    a number of nanoseconds. Clock reads (\<^verbatim>\<open>time.Now\<close>, \<^verbatim>\<open>time.Since\<close>) are inputs of the model.
  \<^item> A Go map is a partial function.
  \<^item> Logging at debug and info level has no effect on any modelled value and is left out;
    warnings are kept in a log.
\<close>

type_synonym time = int
type_synonym duration = int

definition zeroTime :: time where
  \<comment> \<open>\<^verbatim>\<open>time.Time{}\<close>: January 1, year 1, 00:00 UTC\<close>
  "zeroTime = - 62135596800 * 1000000000"

definition IsZero :: "time \<Rightarrow> bool" where
  "IsZero t = (t = zeroTime)"

definition second :: duration where
  "second = 1000000000"

section \<open>devices/types.go\<close>

record DeviceFeatures =
  ft_Temperature :: bool
  ft_Humidity :: bool
  ft_Battery :: bool
  ft_Occupancy :: bool
  ft_Illuminance :: bool
  ft_Pressure :: bool
  ft_Contact :: bool
  ft_WaterLeak :: bool
  ft_Smoke :: bool
  ft_Tamper :: bool
  ft_Brightness :: bool
  ft_Color :: bool
  ft_ColorTemperature :: bool
  ft_Speed :: bool
  ft_Direction :: bool
  ft_Swing :: bool

record Device =
  dev_ID :: string
  dev_Name :: string
  dev_Topic :: string
  dev_Type :: string
  dev_Features :: DeviceFeatures
  dev_HomeKit :: "bool option"
  dev_Web :: "bool option"

record Config =
  cfg_Devices :: "Device list"

text \<open>
  What \<^verbatim>\<open>LoadConfig\<close> gets from the file system and the two decoders before its own checks
  start: the read can fail, \<^verbatim>\<open>hujson.Standardize\<close> can fail, \<^verbatim>\<open>json.Unmarshal\<close> can fail, or the
  document decodes into the \<^verbatim>\<open>devices\<close> array, one \<^verbatim>\<open>Device\<close> per entry and in document order.
\<close>

datatype config_source = Unreadable | NotHuJSON | NotConfig | Decoded "Device list"

datatype config_error =
    ReadFailed
  | StandardizeFailed
  | UnmarshalFailed
  | NoDevices
  | NoID nat
  | NoName string
  | NoTopic string
  | NoType string
  | InvalidType string string
  | DuplicateID string

definition isValidDeviceType :: "string \<Rightarrow> bool" where
  "isValidDeviceType t =
     (t = ''climate_sensor'' \<or> t = ''occupancy_sensor'' \<or> t = ''contact_sensor''
      \<or> t = ''leak_sensor'' \<or> t = ''smoke_sensor'' \<or> t = ''lightbulb''
      \<or> t = ''outlet'' \<or> t = ''switch'' \<or> t = ''fan'')"

definition withDefaults :: "Device \<Rightarrow> Device" where
  \<comment> \<open>the two \<^verbatim>\<open>if cfg.Devices[i].X == nil\<close> assignments at the end of the loop body\<close>
  "withDefaults d =
     d\<lparr>dev_HomeKit := (case dev_HomeKit d of None \<Rightarrow> Some True | Some b \<Rightarrow> Some b),
       dev_Web := (case dev_Web d of None \<Rightarrow> Some True | Some b \<Rightarrow> Some b)\<rparr>"

text \<open>
  The \<^verbatim>\<open>for i, device := range cfg.Devices\<close> loop of \<^verbatim>\<open>LoadConfig\<close>: \<open>i\<close> is the index of the
  head of the remaining slice and \<open>seenIDs\<close> the key set of the Go map of that name. The first
  failing check returns.
\<close>

fun LoadConfig_loop :: "nat \<Rightarrow> string set \<Rightarrow> Device list \<Rightarrow> config_error + Device list" where
  "LoadConfig_loop i seenIDs [] = Inr []"
| "LoadConfig_loop i seenIDs (device # rest) =
     (if dev_ID device = [] then Inl (NoID i)
      else if dev_Name device = [] then Inl (NoName (dev_ID device))
      else if dev_Topic device = [] then Inl (NoTopic (dev_ID device))
      else if dev_Type device = [] then Inl (NoType (dev_ID device))
      else if \<not> isValidDeviceType (dev_Type device)
        then Inl (InvalidType (dev_ID device) (dev_Type device))
      else if dev_ID device \<in> seenIDs then Inl (DuplicateID (dev_ID device))
      else (case LoadConfig_loop (Suc i) (insert (dev_ID device) seenIDs) rest of
              Inl e \<Rightarrow> Inl e
            | Inr ds \<Rightarrow> Inr (withDefaults device # ds)))"

definition LoadConfig :: "config_source \<Rightarrow> config_error + Config" where
  "LoadConfig src =
     (case src of
        Unreadable \<Rightarrow> Inl ReadFailed
      | NotHuJSON \<Rightarrow> Inl StandardizeFailed
      | NotConfig \<Rightarrow> Inl UnmarshalFailed
      | Decoded ds \<Rightarrow>
          if length ds = 0 then Inl NoDevices
          else (case LoadConfig_loop 0 {} ds of
                  Inl e \<Rightarrow> Inl e
                | Inr ds' \<Rightarrow> Inr \<lparr>cfg_Devices = ds'\<rparr>))"

record State =
  st_ID :: string
  st_Name :: string
  st_Temperature :: "real option"
  st_Humidity :: "real option"
  st_Battery :: "int option"
  st_Occupancy :: "bool option"
  st_Illuminance :: "int option"
  st_Pressure :: "real option"
  st_Contact :: "bool option"
  st_WaterLeak :: "bool option"
  st_Smoke :: "bool option"
  st_Tamper :: "bool option"
  st_On :: "bool option"
  st_Brightness :: "int option"
  st_Hue :: "real option"
  st_Saturation :: "real option"
  st_ColorTemp :: "int option"
  st_FanSpeed :: "int option"
  st_FanDirection :: "bool option"
  st_FanSwing :: "bool option"
  st_LinkQuality :: int
  st_LastUpdated :: time
  st_LastSeen :: time

definition emptyState :: "string \<Rightarrow> string \<Rightarrow> time \<Rightarrow> time \<Rightarrow> State" where
  \<comment> \<open>the literal \<^verbatim>\<open>State{ID: .., Name: .., LastSeen: .., LastUpdated: ..}\<close>: every other field
      has its zero value\<close>
  "emptyState i n seen upd =
     \<lparr>st_ID = i, st_Name = n, st_Temperature = None, st_Humidity = None, st_Battery = None,
      st_Occupancy = None, st_Illuminance = None, st_Pressure = None, st_Contact = None,
      st_WaterLeak = None, st_Smoke = None, st_Tamper = None, st_On = None,
      st_Brightness = None, st_Hue = None, st_Saturation = None, st_ColorTemp = None,
      st_FanSpeed = None, st_FanDirection = None, st_FanSwing = None, st_LinkQuality = 0,
      st_LastUpdated = upd, st_LastSeen = seen\<rparr>"

record StateChangedEvent =
  sc_DeviceID :: string
  sc_State :: State
  sc_UpdatedFields :: "string list"

text \<open>
  The two brightness conversions compute \<^verbatim>\<open>int(float64(v) * 100.0 / 254.0)\<close> and
  \<^verbatim>\<open>int(float64(v) * 254.0 / 100.0)\<close> after clamping, so \<open>v\<close> is between 1 and 253 (or 1 and 99)
  when the quotient is formed. The product is a small integer and exact in \<^verbatim>\<open>float64\<close>; the
  quotient is written here over the reals and truncated. Lemma \<open>float_quotient_truncation\<close>
  below shows that any value as close to the exact quotient as a correctly rounded
  \<^verbatim>\<open>float64\<close> division is truncates to the same integer.
\<close>

definition Z2MBrightnessToHAP :: "int \<Rightarrow> int" where
  "Z2MBrightnessToHAP z2m =
     (if z2m \<le> 0 then 0
      else if z2m \<ge> 254 then 100
      else \<lfloor>real_of_int z2m * 100 / 254\<rfloor>)"

definition HAPBrightnessToZ2M :: "int \<Rightarrow> int" where
  "HAPBrightnessToZ2M hap =
     (if hap \<le> 0 then 0
      else if hap \<ge> 100 then 254
      else \<lfloor>real_of_int hap * 254 / 100\<rfloor>)"

definition ClampColorTemp :: "int \<Rightarrow> int" where
  "ClampColorTemp ct = (if ct < 140 then 140 else if ct > 500 then 500 else ct)"

definition Z2MStateToBool :: "string \<Rightarrow> bool" where
  "Z2MStateToBool state = (state = ''ON'')"

definition BoolToZ2MState :: "bool \<Rightarrow> string" where
  "BoolToZ2MState on = (if on then ''ON'' else ''OFF'')"

section \<open>events/types.go\<close>

record StateUpdateEvent =
  ev_Timestamp :: time
  ev_Source :: string
  ev_DeviceID :: string
  ev_Name :: string
  ev_Temperature :: "real option"
  ev_Humidity :: "real option"
  ev_Battery :: "int option"
  ev_Occupancy :: "bool option"
  ev_Illuminance :: "int option"
  ev_Pressure :: "real option"
  ev_Contact :: "bool option"
  ev_WaterLeak :: "bool option"
  ev_Smoke :: "bool option"
  ev_Tamper :: "bool option"
  ev_On :: "bool option"
  ev_Brightness :: "int option"
  ev_Hue :: "real option"
  ev_Saturation :: "real option"
  ev_ColorTemp :: "int option"
  ev_FanSpeed :: "int option"
  ev_LinkQuality :: int
  ev_LastSeen :: time
  ev_LastUpdated :: time
  ev_ConnectionState :: string
  ev_ConnectionNote :: string

fun ptrBoolEqual :: "bool option \<Rightarrow> bool option \<Rightarrow> bool" where
  "ptrBoolEqual None None = True"
| "ptrBoolEqual None (Some b) = False"
| "ptrBoolEqual (Some a) None = False"
| "ptrBoolEqual (Some a) (Some b) = (a = b)"

fun ptrIntEqual :: "int option \<Rightarrow> int option \<Rightarrow> bool" where
  "ptrIntEqual None None = True"
| "ptrIntEqual None (Some b) = False"
| "ptrIntEqual (Some a) None = False"
| "ptrIntEqual (Some a) (Some b) = (a = b)"

text \<open>
  \<^verbatim>\<open>ptrFloatEqual\<close> compares within \<^verbatim>\<open>eps = 0.001\<close>. Over the reals the difference of two equal
  values is 0, as it is for two equal finite \<^verbatim>\<open>float64\<close> values.
\<close>

fun ptrFloatEqual :: "real option \<Rightarrow> real option \<Rightarrow> bool" where
  "ptrFloatEqual None None = True"
| "ptrFloatEqual None (Some b) = False"
| "ptrFloatEqual (Some a) None = False"
| "ptrFloatEqual (Some a) (Some b) =
     (let diff = a - b; diff = (if diff < 0 then - diff else diff) in diff < 1 / 1000)"

text \<open>\<^verbatim>\<open>time.Time.Equal\<close> holds when both values denote the same instant.\<close>

definition Equals :: "StateUpdateEvent \<Rightarrow> StateUpdateEvent \<Rightarrow> bool" where
  "Equals e other =
     (ev_DeviceID e = ev_DeviceID other \<and>
      ev_Name e = ev_Name other \<and>
      ptrBoolEqual (ev_On e) (ev_On other) \<and>
      ptrIntEqual (ev_Brightness e) (ev_Brightness other) \<and>
      ptrFloatEqual (ev_Hue e) (ev_Hue other) \<and>
      ptrFloatEqual (ev_Saturation e) (ev_Saturation other) \<and>
      ptrIntEqual (ev_ColorTemp e) (ev_ColorTemp other) \<and>
      ptrFloatEqual (ev_Temperature e) (ev_Temperature other) \<and>
      ptrFloatEqual (ev_Humidity e) (ev_Humidity other) \<and>
      ptrIntEqual (ev_Battery e) (ev_Battery other) \<and>
      ptrBoolEqual (ev_Occupancy e) (ev_Occupancy other) \<and>
      ptrIntEqual (ev_Illuminance e) (ev_Illuminance other) \<and>
      ptrFloatEqual (ev_Pressure e) (ev_Pressure other) \<and>
      ptrBoolEqual (ev_Contact e) (ev_Contact other) \<and>
      ptrBoolEqual (ev_WaterLeak e) (ev_WaterLeak other) \<and>
      ptrBoolEqual (ev_Smoke e) (ev_Smoke other) \<and>
      ptrBoolEqual (ev_Tamper e) (ev_Tamper other) \<and>
      ptrIntEqual (ev_FanSpeed e) (ev_FanSpeed other) \<and>
      ev_LinkQuality e = ev_LinkQuality other \<and>
      ev_LastSeen e = ev_LastSeen other \<and>
      ev_LastUpdated e = ev_LastUpdated other \<and>
      ev_ConnectionState e = ev_ConnectionState other \<and>
      ev_ConnectionNote e = ev_ConnectionNote other)"

section \<open>events/bus.go\<close>

text \<open>
  Of the \<^verbatim>\<open>Bus\<close> struct the deduplication cache \<^verbatim>\<open>lastStates\<close> is kept, and \<open>bus_delivered\<close>
  records, oldest first, every event handed to \<^verbatim>\<open>publisher.Publish\<close>, which is what the
  subscribers of \<^verbatim>\<open>StateUpdateEvent\<close> receive. \<^verbatim>\<open>PublishStateUpdate\<close> runs under \<^verbatim>\<open>stateMu\<close>, so
  each call is one atomic step on this state. The \<^verbatim>\<open>client\<close> argument only names the
  publishing role and does not influence the outcome.
\<close>

record Bus =
  bus_lastStates :: "string \<rightharpoonup> StateUpdateEvent"
  bus_delivered :: "StateUpdateEvent list"

definition New :: Bus where
  \<comment> \<open>the bus returned by \<^verbatim>\<open>New\<close> for a non-nil logger\<close>
  "New = \<lparr>bus_lastStates = Map.empty, bus_delivered = []\<rparr>"

definition PublishStateUpdate :: "Bus \<Rightarrow> StateUpdateEvent \<Rightarrow> Bus" where
  "PublishStateUpdate b event =
     (case bus_lastStates b (ev_DeviceID event) of
        Some lastEvent \<Rightarrow>
          if Equals event lastEvent then b
          else b\<lparr>bus_delivered := bus_delivered b @ [event],
                 bus_lastStates := (bus_lastStates b)(ev_DeviceID event \<mapsto> event)\<rparr>
      | None \<Rightarrow>
          b\<lparr>bus_delivered := bus_delivered b @ [event],
            bus_lastStates := (bus_lastStates b)(ev_DeviceID event \<mapsto> event)\<rparr>)"

text \<open>
  The \<^verbatim>\<open>lastStates\<close> field is unexported and \<^verbatim>\<open>PublishStateUpdate\<close> is its only writer, so
  every bus a caller can hold is the one returned by \<^verbatim>\<open>New\<close> after some sequence of
  \<^verbatim>\<open>PublishStateUpdate\<close> calls: \<open>publishAll es\<close> is the bus after the calls for \<open>es\<close>, in
  order. \<open>lastForwarded b d\<close> reads, from what was delivered, the last event actually
  forwarded for device \<open>d\<close>.
\<close>

definition publishAll :: "StateUpdateEvent list \<Rightarrow> Bus" where
  "publishAll es = foldl PublishStateUpdate New es"

definition lastForwarded :: "Bus \<Rightarrow> string \<Rightarrow> StateUpdateEvent option" where
  "lastForwarded b d =
     (case filter (\<lambda>e. ev_DeviceID e = d) (rev (bus_delivered b)) of
        [] \<Rightarrow> None
      | e # older \<Rightarrow> Some e)"

section \<open>devices/manager.go\<close>

text \<open>
  The bus transport (\<^verbatim>\<open>mqtt.Server\<close>) is an external collaborator. The model keeps the list
  of the calls made to its \<^verbatim>\<open>Publish\<close> method, oldest first, each with its four arguments,
  and a predicate saying which topics the server accepts; a rejected call returns an error.
\<close>

record MQTTServer =
  mq_calls :: "(string \<times> string \<times> bool \<times> nat) list"
  mq_accepts :: "string \<Rightarrow> bool"

definition Publish :: "MQTTServer \<Rightarrow> string \<Rightarrow> string \<Rightarrow> bool \<Rightarrow> nat \<Rightarrow> bool \<times> MQTTServer" where
  \<comment> \<open>the first component is \<^verbatim>\<open>err == nil\<close>\<close>
  "Publish srv topic payload retain qos =
     (mq_accepts srv topic, srv\<lparr>mq_calls := mq_calls srv @ [(topic, payload, retain, qos)]\<rparr>)"

datatype log_entry = Warn string string

text \<open>
  \<^verbatim>\<open>Manager.devices\<close> maps an identifier to an \<^verbatim>\<open>Info\<close>, a struct whose only field is the
  \<^verbatim>\<open>Device\<close>; \<^verbatim>\<open>Manager.states\<close> maps it to a \<^verbatim>\<open>*State\<close> that is never nil. \<open>dm_eventBus\<close> is
  \<open>None\<close> when \<^verbatim>\<open>eventBus\<close> or \<^verbatim>\<open>stateEventClient\<close> is nil.
\<close>

record Manager =
  dm_devices :: "string \<rightharpoonup> Device"
  dm_states :: "string \<rightharpoonup> State"
  dm_eventBus :: "Bus option"
  dm_mqttServer :: MQTTServer
  dm_log :: "log_entry list"

datatype manager_error = DeviceNotFound string | PublishFailed

text \<open>
  Decimal rendering of a Go \<^verbatim>\<open>int\<close>, as \<^verbatim>\<open>encoding/json\<close> writes an integer value.
\<close>

fun digits :: "nat \<Rightarrow> string" where
  "digits n =
     (if n < 10 then [''0123456789'' ! n]
      else digits (n div 10) @ [''0123456789'' ! (n mod 10)])"

declare digits.simps [simp del]

definition itoa :: "int \<Rightarrow> string" where
  "itoa i = (if i < 0 then CHR ''-'' # digits (nat (- i)) else digits (nat i))"

definition marshalIntField :: "string \<Rightarrow> int \<Rightarrow> string" where
  \<comment> \<open>\<^verbatim>\<open>json.Marshal(map[string]interface{}{key: n})\<close> for a key that needs no escaping; this
      call cannot fail, so the \<^verbatim>\<open>failed to marshal command\<close> return is unreachable\<close>
  "marshalIntField key n = ''{\"'' @ key @ ''\":'' @ itoa n @ ''}''"

definition SetBrightness :: "Manager \<Rightarrow> string \<Rightarrow> int \<Rightarrow> manager_error option \<times> Manager" where
  "SetBrightness dm deviceID brightness =
     (case dm_devices dm deviceID of
        None \<Rightarrow> (Some (DeviceNotFound deviceID), dm)
      | Some info \<Rightarrow>
          let topic = ''zigbee2mqtt/'' @ dev_Topic info @ ''/set'';
              z2mBrightness = HAPBrightnessToZ2M brightness;
              data = marshalIntField ''brightness'' z2mBrightness;
              (ok, srv) = Publish (dm_mqttServer dm) topic data False 0
          in (if ok then None else Some PublishFailed, dm\<lparr>dm_mqttServer := srv\<rparr>))"

text \<open>
  \<^verbatim>\<open>time.Duration.Round(time.Second)\<close> (halves round away from zero) and
  \<^verbatim>\<open>time.Duration.String\<close> on the resulting whole number of seconds.
\<close>

definition roundSecond :: "duration \<Rightarrow> duration" where
  "roundSecond d =
     (if d < 0 then
        (let r = (- d) mod second in if r + r < second then d + r else d - second + r)
      else
        (let r = d mod second in if r + r < second then d - r else d + second - r))"

definition durationString :: "duration \<Rightarrow> string" where
  "durationString d =
     (let u = nat \<bar>d\<bar> div nat second;
          s = digits (u mod 60) @ ''s'';
          m = (if u div 60 > 0 then digits (u div 60 mod 60) @ ''m'' else []);
          h = (if u div 60 div 60 > 0 then digits (u div 60 div 60) @ ''h'' else [])
      in (if d < 0 then ''-'' else []) @ h @ m @ s)"

definition connectionStatus :: "time \<Rightarrow> time \<Rightarrow> string \<times> string" where
  \<comment> \<open>\<open>now\<close> is the clock read inside \<^verbatim>\<open>time.Since\<close>\<close>
  "connectionStatus now lastSeen =
     (if IsZero lastSeen then (''disconnected'', ''Never seen'')
      else
        let since = now - lastSeen;
            connectionNote = ''Last seen: '' @ durationString (roundSecond since) @ '' ago''
        in if since < 30 * second then (''connected'', connectionNote)
           else if since < 60 * second then (''stale'', connectionNote)
           else (''disconnected'', connectionNote))"

text \<open>
  The \<^verbatim>\<open>events.StateUpdateEvent\<close> literal built by \<^verbatim>\<open>publishStateUpdate\<close>. \<open>tsince\<close> is the clock
  read of \<^verbatim>\<open>connectionStatus\<close>, \<open>tnow\<close> the later one of \<^verbatim>\<open>Timestamp: time.Now()\<close>.
\<close>

definition stateUpdateEvent ::
  "time \<Rightarrow> time \<Rightarrow> Manager \<Rightarrow> string \<Rightarrow> string \<Rightarrow> State \<Rightarrow> StateUpdateEvent" where
  "stateUpdateEvent tsince tnow dm source deviceID state =
     (let name = (case dm_devices dm deviceID of Some info \<Rightarrow> dev_Name info | None \<Rightarrow> deviceID);
          (connectionState, connectionNote) = connectionStatus tsince (st_LastSeen state);
          brightnessHAP = (case st_Brightness state of
                             Some b \<Rightarrow> Some (Z2MBrightnessToHAP b) | None \<Rightarrow> None)
      in \<lparr>ev_Timestamp = tnow, ev_Source = source, ev_DeviceID = deviceID, ev_Name = name,
          ev_Temperature = st_Temperature state, ev_Humidity = st_Humidity state,
          ev_Battery = st_Battery state, ev_Occupancy = st_Occupancy state,
          ev_Illuminance = st_Illuminance state, ev_Pressure = st_Pressure state,
          ev_Contact = st_Contact state, ev_WaterLeak = st_WaterLeak state,
          ev_Smoke = st_Smoke state, ev_Tamper = st_Tamper state, ev_On = st_On state,
          ev_Brightness = brightnessHAP, ev_Hue = st_Hue state,
          ev_Saturation = st_Saturation state, ev_ColorTemp = st_ColorTemp state,
          ev_FanSpeed = st_FanSpeed state, ev_LinkQuality = st_LinkQuality state,
          ev_LastSeen = st_LastSeen state, ev_LastUpdated = st_LastUpdated state,
          ev_ConnectionState = connectionState, ev_ConnectionNote = connectionNote\<rparr>)"

definition publishStateUpdate ::
  "time \<Rightarrow> time \<Rightarrow> string \<Rightarrow> string \<Rightarrow> State \<Rightarrow> Manager \<Rightarrow> Manager" where
  "publishStateUpdate tsince tnow source deviceID state dm =
     (case dm_eventBus dm of
        None \<Rightarrow> dm
      | Some b \<Rightarrow>
          dm\<lparr>dm_eventBus :=
               Some (PublishStateUpdate b (stateUpdateEvent tsince tnow dm source deviceID state))\<rparr>)"

text \<open>
  One arm of the \<^verbatim>\<open>switch field\<close> inside \<^verbatim>\<open>ProcessStateEvents\<close>: \<open>cand\<close> is \<^verbatim>\<open>event.State\<close>. The
  switch has no default arm, so any other name leaves the state as it is.
\<close>

definition applyField :: "State \<Rightarrow> string \<Rightarrow> State \<Rightarrow> State" where
  "applyField cand field state =
     (if field = ''On'' then state\<lparr>st_On := st_On cand\<rparr>
      else if field = ''Brightness'' then state\<lparr>st_Brightness := st_Brightness cand\<rparr>
      else if field = ''Hue'' then state\<lparr>st_Hue := st_Hue cand\<rparr>
      else if field = ''Saturation'' then state\<lparr>st_Saturation := st_Saturation cand\<rparr>
      else if field = ''ColorTemp'' then state\<lparr>st_ColorTemp := st_ColorTemp cand\<rparr>
      else if field = ''Temperature'' then state\<lparr>st_Temperature := st_Temperature cand\<rparr>
      else if field = ''Humidity'' then state\<lparr>st_Humidity := st_Humidity cand\<rparr>
      else if field = ''Battery'' then state\<lparr>st_Battery := st_Battery cand\<rparr>
      else if field = ''Occupancy'' then state\<lparr>st_Occupancy := st_Occupancy cand\<rparr>
      else if field = ''Illuminance'' then state\<lparr>st_Illuminance := st_Illuminance cand\<rparr>
      else if field = ''Pressure'' then state\<lparr>st_Pressure := st_Pressure cand\<rparr>
      else if field = ''Contact'' then state\<lparr>st_Contact := st_Contact cand\<rparr>
      else if field = ''WaterLeak'' then state\<lparr>st_WaterLeak := st_WaterLeak cand\<rparr>
      else if field = ''Smoke'' then state\<lparr>st_Smoke := st_Smoke cand\<rparr>
      else if field = ''Tamper'' then state\<lparr>st_Tamper := st_Tamper cand\<rparr>
      else if field = ''FanSpeed'' then state\<lparr>st_FanSpeed := st_FanSpeed cand\<rparr>
      else if field = ''LinkQuality'' then state\<lparr>st_LinkQuality := st_LinkQuality cand\<rparr>
      else if field = ''LastSeen'' then state\<lparr>st_LastSeen := st_LastSeen cand\<rparr>
      else if field = ''LastUpdated'' then state\<lparr>st_LastUpdated := st_LastUpdated cand\<rparr>
      else state)"

primrec mergeFields :: "State \<Rightarrow> string list \<Rightarrow> State \<Rightarrow> State" where
  \<comment> \<open>\<^verbatim>\<open>for _, field := range event.UpdatedFields { switch field ... }\<close>\<close>
  "mergeFields cand [] state = state"
| "mergeFields cand (field # rest) state = mergeFields cand rest (applyField cand field state)"

text \<open>
  The body of the \<^verbatim>\<open>case event := <-dm.stateSubscriber.Events()\<close> arm, from taking the write
  lock to the call of \<^verbatim>\<open>publishStateUpdate\<close>. No statement on this path can panic: the map
  reads use the two-value form and the stored pointers are not nil.
\<close>

definition processStateEvent :: "time \<Rightarrow> time \<Rightarrow> Manager \<Rightarrow> StateChangedEvent \<Rightarrow> Manager" where
  "processStateEvent tsince tnow dm event =
     (case dm_states dm (sc_DeviceID event) of
        None \<Rightarrow>
          dm\<lparr>dm_log := dm_log dm @
                [Warn ''Received state event for unknown device'' (sc_DeviceID event)]\<rparr>
      | Some state \<Rightarrow>
          let state' = (if length (sc_UpdatedFields event) > 0
                        then mergeFields (sc_State event) (sc_UpdatedFields event) state
                        else state);
              dm' = dm\<lparr>dm_states := (dm_states dm)(sc_DeviceID event \<mapsto> state')\<rparr>
          in publishStateUpdate tsince tnow ''eventbus'' (sc_DeviceID event) state' dm')"

text \<open>
  The \<^verbatim>\<open>for { select { ... } }\<close> loop of \<^verbatim>\<open>ProcessStateEvents\<close>, run on the events received
  before the context is cancelled; each comes with the two clock reads its processing makes.
  After an event for an unknown device the loop executes \<^verbatim>\<open>continue\<close>.
\<close>

primrec ProcessStateEvents :: "Manager \<Rightarrow> (time \<times> time \<times> StateChangedEvent) list \<Rightarrow> Manager" where
  "ProcessStateEvents dm [] = dm"
| "ProcessStateEvents dm (x # rest) =
     ProcessStateEvents (processStateEvent (fst x) (fst (snd x)) dm (snd (snd x))) rest"

section \<open>mqtt.go\<close>

text \<open>
  A decoded JSON value as \<^verbatim>\<open>json.Unmarshal\<close> stores it in an \<^verbatim>\<open>interface{}\<close>: \<^verbatim>\<open>nil\<close>, \<^verbatim>\<open>bool\<close>,
  \<^verbatim>\<open>float64\<close>, \<^verbatim>\<open>string\<close>, \<^verbatim>\<open>[]interface{}\<close> or \<^verbatim>\<open>map[string]interface{}\<close>.
\<close>

datatype json =
    JNull
  | JBool bool
  | JNumber real
  | JString string
  | JArray "json list"
  | JObject "string \<Rightarrow> json option"

text \<open>
  The comma-ok type assertions \<^verbatim>\<open>msg[key].(float64)\<close>, \<^verbatim>\<open>.(bool)\<close>, \<^verbatim>\<open>.(string)\<close> and
  \<^verbatim>\<open>.(map[string]interface{})\<close>: a missing key and a value of another type both give
  \<^verbatim>\<open>ok == false\<close>.
\<close>

fun asFloat :: "json option \<Rightarrow> real option" where
  "asFloat (Some (JNumber x)) = Some x"
| "asFloat _ = None"

fun asBool :: "json option \<Rightarrow> bool option" where
  "asBool (Some (JBool b)) = Some b"
| "asBool _ = None"

fun asString :: "json option \<Rightarrow> string option" where
  "asString (Some (JString s)) = Some s"
| "asString _ = None"

fun asObject :: "json option \<Rightarrow> (string \<Rightarrow> json option) option" where
  "asObject (Some (JObject m)) = Some m"
| "asObject _ = None"

definition toInt :: "real \<Rightarrow> int" where
  \<comment> \<open>the conversion \<^verbatim>\<open>int(x)\<close> of a \<^verbatim>\<open>float64\<close> inside the range of \<^verbatim>\<open>int\<close>: the fraction is
      discarded\<close>
  "toInt x = (if x < 0 then \<lceil>x\<rceil> else \<lfloor>x\<rfloor>)"

definition fanModeSpeed :: "string \<Rightarrow> int" where
  \<comment> \<open>the \<^verbatim>\<open>switch fanMode\<close>\<close>
  "fanModeSpeed fanMode =
     (if fanMode = ''off'' then 0
      else if fanMode = ''low'' then 33
      else if fanMode = ''medium'' then 66
      else if fanMode = ''high'' then 100
      else if fanMode = ''auto'' then 50
      else 50)"

text \<open>
  Each block \<^verbatim>\<open>if v, ok := ...; ok { state.F = ...; fields = append(fields, name) }\<close> of
  \<^verbatim>\<open>parseZ2MMessage\<close> is one \<open>whenOk\<close> step on the pair of the state and the field list.
\<close>

definition whenOk ::
  "'a option \<Rightarrow> ('a \<Rightarrow> State \<Rightarrow> State) \<Rightarrow> string \<Rightarrow> State \<times> string list \<Rightarrow> State \<times> string list" where
  "whenOk v assign name p =
     (case v of None \<Rightarrow> p | Some x \<Rightarrow> (assign x (fst p), snd p @ [name]))"

definition parseColor :: "(string \<Rightarrow> json option) option \<Rightarrow> State \<times> string list \<Rightarrow> State \<times> string list" where
  "parseColor c p =
     (case c of
        None \<Rightarrow> p
      | Some color \<Rightarrow>
          whenOk (asFloat (color ''saturation'')) (\<lambda>sat s. s\<lparr>st_Saturation := Some sat\<rparr>)
            ''Saturation''
            (whenOk (asFloat (color ''hue'')) (\<lambda>hue s. s\<lparr>st_Hue := Some hue\<rparr>) ''Hue'' p))"

definition parseSteps :: "(string \<Rightarrow> json option) \<Rightarrow> (State \<times> string list \<Rightarrow> State \<times> string list) list" where
  \<comment> \<open>the blocks of \<^verbatim>\<open>parseZ2MMessage\<close> in source order\<close>
  "parseSteps msg =
     [whenOk (asFloat (msg ''linkquality'')) (\<lambda>lq s. s\<lparr>st_LinkQuality := toInt lq\<rparr>)
        ''LinkQuality'',
      whenOk (asFloat (msg ''temperature'')) (\<lambda>temp s. s\<lparr>st_Temperature := Some temp\<rparr>)
        ''Temperature'',
      whenOk (asFloat (msg ''humidity'')) (\<lambda>humidity s. s\<lparr>st_Humidity := Some humidity\<rparr>)
        ''Humidity'',
      whenOk (asFloat (msg ''battery'')) (\<lambda>battery s. s\<lparr>st_Battery := Some (toInt battery)\<rparr>)
        ''Battery'',
      whenOk (asBool (msg ''occupancy'')) (\<lambda>occupancy s. s\<lparr>st_Occupancy := Some occupancy\<rparr>)
        ''Occupancy'',
      whenOk (asFloat (msg ''illuminance''))
        (\<lambda>illuminance s. s\<lparr>st_Illuminance := Some (toInt illuminance)\<rparr>) ''Illuminance'',
      whenOk (asFloat (msg ''illuminance_lux''))
        (\<lambda>illuminance s. s\<lparr>st_Illuminance := Some (toInt illuminance)\<rparr>) ''Illuminance'',
      whenOk (asFloat (msg ''pressure'')) (\<lambda>pressure s. s\<lparr>st_Pressure := Some pressure\<rparr>)
        ''Pressure'',
      whenOk (asBool (msg ''contact'')) (\<lambda>contact s. s\<lparr>st_Contact := Some contact\<rparr>)
        ''Contact'',
      whenOk (asBool (msg ''water_leak'')) (\<lambda>waterLeak s. s\<lparr>st_WaterLeak := Some waterLeak\<rparr>)
        ''WaterLeak'',
      whenOk (asBool (msg ''smoke'')) (\<lambda>smoke s. s\<lparr>st_Smoke := Some smoke\<rparr>) ''Smoke'',
      whenOk (asBool (msg ''tamper'')) (\<lambda>tamper s. s\<lparr>st_Tamper := Some tamper\<rparr>) ''Tamper'',
      whenOk (asString (msg ''state''))
        (\<lambda>stateStr s. s\<lparr>st_On := Some (Z2MStateToBool stateStr)\<rparr>) ''On'',
      whenOk (asFloat (msg ''brightness''))
        (\<lambda>brightness s. s\<lparr>st_Brightness := Some (toInt brightness)\<rparr>) ''Brightness'',
      whenOk (asFloat (msg ''color_temp''))
        (\<lambda>colorTemp s. s\<lparr>st_ColorTemp := Some (toInt colorTemp)\<rparr>) ''ColorTemp'',
      parseColor (asObject (msg ''color'')),
      whenOk (asString (msg ''fan_state''))
        (\<lambda>fanState s. s\<lparr>st_On := Some (Z2MStateToBool fanState)\<rparr>) ''On'',
      whenOk (asFloat (msg ''fan_speed''))
        (\<lambda>fanSpeed s. s\<lparr>st_FanSpeed := Some (toInt fanSpeed)\<rparr>) ''FanSpeed'',
      whenOk (asString (msg ''fan_mode''))
        (\<lambda>fanMode s. s\<lparr>st_FanSpeed := Some (fanModeSpeed fanMode)\<rparr>) ''FanSpeed'']"

definition parseZ2MMessage ::
  "time \<Rightarrow> Device \<Rightarrow> (string \<Rightarrow> json option) \<Rightarrow> State \<times> string list" where
  \<comment> \<open>\<open>now\<close> is the value of \<^verbatim>\<open>time.Now()\<close> read on entry\<close>
  "parseZ2MMessage now device msg =
     (let p = foldl (\<lambda>acc step. step acc)
                (emptyState (dev_ID device) (dev_Name device) now now, []) (parseSteps msg)
      in (fst p, snd p @ [''LastSeen'', ''LastUpdated'']))"

section \<open>hap.go\<close>

text \<open>
  \<^verbatim>\<open>AccessoryInfo\<close> holds one nullable pointer per service or characteristic. A field here is
  \<open>None\<close> when the pointer is nil and otherwise carries the live value of the characteristic
  that \<^verbatim>\<open>UpdateState\<close> writes: \<^verbatim>\<open>CurrentTemperature\<close>, \<^verbatim>\<open>CurrentRelativeHumidity\<close>,
  \<^verbatim>\<open>OccupancyDetected\<close>, the pair (\<^verbatim>\<open>BatteryLevel\<close>, \<^verbatim>\<open>StatusLowBattery\<close>),
  \<^verbatim>\<open>ContactSensorState\<close>, \<^verbatim>\<open>LeakDetected\<close>, \<^verbatim>\<open>SmokeDetected\<close>, the \<^verbatim>\<open>On\<close> of a light bulb, of an
  outlet and of a fan, and the five stand-alone characteristics. \<^verbatim>\<open>SetValue\<close> belongs to the
  protocol library; it is taken to store its argument, and the code ignores its result.
\<close>

record AccessoryInfo =
  acc_DeviceType :: string
  acc_DeviceID :: string
  acc_Temperature :: "real option"
  acc_Humidity :: "real option"
  acc_Occupancy :: "int option"
  acc_Battery :: "(int \<times> int) option"
  acc_Contact :: "int option"
  acc_Leak :: "int option"
  acc_Smoke :: "int option"
  acc_Lightbulb :: "bool option"
  acc_Brightness :: "int option"
  acc_Hue :: "real option"
  acc_Saturation :: "real option"
  acc_ColorTemperature :: "int option"
  acc_Outlet :: "bool option"
  acc_Fan :: "bool option"
  acc_FanRotation :: "real option"

record HAPManager =
  hm_accessories :: "string \<rightharpoonup> AccessoryInfo"
  hm_outgoingUpdates :: "64 word"
  hm_lastActivity :: int

definition setValueIf :: "'c option \<Rightarrow> 'v option \<Rightarrow> ('v \<Rightarrow> 'c) \<Rightarrow> 'c option" where
  \<comment> \<open>\<^verbatim>\<open>if accInfo.X != nil && event.Y != nil { accInfo.X.SetValue(f(*event.Y)) }\<close>\<close>
  "setValueIf ch v f =
     (case ch of
        None \<Rightarrow> None
      | Some c \<Rightarrow> (case v of None \<Rightarrow> Some c | Some x \<Rightarrow> Some (f x)))"

definition Unix :: "time \<Rightarrow> int" where
  \<comment> \<open>\<^verbatim>\<open>time.Time.Unix\<close>: whole seconds since the epoch\<close>
  "Unix t = t div second"

definition UpdateState :: "time \<Rightarrow> HAPManager \<Rightarrow> StateUpdateEvent \<Rightarrow> HAPManager" where
  "UpdateState tnow hm event =
     (case hm_accessories hm (ev_DeviceID event) of
        None \<Rightarrow> hm
      | Some accInfo \<Rightarrow>
          let accInfo' = accInfo
            \<lparr>acc_Temperature := setValueIf (acc_Temperature accInfo) (ev_Temperature event) id,
             acc_Humidity := setValueIf (acc_Humidity accInfo) (ev_Humidity event) id,
             acc_Occupancy := setValueIf (acc_Occupancy accInfo) (ev_Occupancy event)
                (\<lambda>occupancy. if occupancy then 1 else 0),
             acc_Battery := setValueIf (acc_Battery accInfo) (ev_Battery event)
                (\<lambda>battery. (battery, if battery < 20 then 1 else 0)),
             acc_Contact := setValueIf (acc_Contact accInfo) (ev_Contact event)
                (\<lambda>contact. if contact then 0 else 1),
             acc_Leak := setValueIf (acc_Leak accInfo) (ev_WaterLeak event)
                (\<lambda>waterLeak. if waterLeak then 1 else 0),
             acc_Smoke := setValueIf (acc_Smoke accInfo) (ev_Smoke event)
                (\<lambda>smoke. if smoke then 1 else 0),
             acc_Lightbulb := setValueIf (acc_Lightbulb accInfo) (ev_On event) id,
             acc_Outlet := setValueIf (acc_Outlet accInfo) (ev_On event) id,
             acc_Brightness := setValueIf (acc_Brightness accInfo) (ev_Brightness event) id,
             acc_Hue := setValueIf (acc_Hue accInfo) (ev_Hue event) id,
             acc_Saturation := setValueIf (acc_Saturation accInfo) (ev_Saturation event) id,
             acc_ColorTemperature := setValueIf (acc_ColorTemperature accInfo)
                (ev_ColorTemp event) ClampColorTemp,
             acc_Fan := setValueIf (acc_Fan accInfo) (ev_On event) id,
             acc_FanRotation := setValueIf (acc_FanRotation accInfo) (ev_FanSpeed event)
                real_of_int\<rparr>
          in hm\<lparr>hm_accessories := (hm_accessories hm)(ev_DeviceID event \<mapsto> accInfo'),
                hm_outgoingUpdates := hm_outgoingUpdates hm + 1,
                hm_lastActivity := Unix tnow\<rparr>)"

section \<open>Reading a field of the state by its Go name\<close>

text \<open>
  The claims about the merge speak of "the fields named in the field list". To state them
  for an arbitrary name, \<open>stateField\<close> reads the field of \<^verbatim>\<open>State\<close> that has the given Go name;
  a string that names no field reads as \<open>None\<close>. \<open>mergedNames\<close> lists the names that have an
  arm in the \<^verbatim>\<open>switch\<close> of \<^verbatim>\<open>ProcessStateEvents\<close>.
\<close>

datatype field_value =
    VString string
  | VFloat "real option"
  | VInt "int option"
  | VBool "bool option"
  | VNum int
  | VTime time

definition stateField :: "string \<Rightarrow> State \<Rightarrow> field_value option" where
  "stateField n s =
     (if n = ''ID'' then Some (VString (st_ID s))
      else if n = ''Name'' then Some (VString (st_Name s))
      else if n = ''Temperature'' then Some (VFloat (st_Temperature s))
      else if n = ''Humidity'' then Some (VFloat (st_Humidity s))
      else if n = ''Battery'' then Some (VInt (st_Battery s))
      else if n = ''Occupancy'' then Some (VBool (st_Occupancy s))
      else if n = ''Illuminance'' then Some (VInt (st_Illuminance s))
      else if n = ''Pressure'' then Some (VFloat (st_Pressure s))
      else if n = ''Contact'' then Some (VBool (st_Contact s))
      else if n = ''WaterLeak'' then Some (VBool (st_WaterLeak s))
      else if n = ''Smoke'' then Some (VBool (st_Smoke s))
      else if n = ''Tamper'' then Some (VBool (st_Tamper s))
      else if n = ''On'' then Some (VBool (st_On s))
      else if n = ''Brightness'' then Some (VInt (st_Brightness s))
      else if n = ''Hue'' then Some (VFloat (st_Hue s))
      else if n = ''Saturation'' then Some (VFloat (st_Saturation s))
      else if n = ''ColorTemp'' then Some (VInt (st_ColorTemp s))
      else if n = ''FanSpeed'' then Some (VInt (st_FanSpeed s))
      else if n = ''FanDirection'' then Some (VBool (st_FanDirection s))
      else if n = ''FanSwing'' then Some (VBool (st_FanSwing s))
      else if n = ''LinkQuality'' then Some (VNum (st_LinkQuality s))
      else if n = ''LastUpdated'' then Some (VTime (st_LastUpdated s))
      else if n = ''LastSeen'' then Some (VTime (st_LastSeen s))
      else None)"

definition mergedNames :: "string list" where
  "mergedNames =
     [''On'', ''Brightness'', ''Hue'', ''Saturation'', ''ColorTemp'', ''Temperature'',
      ''Humidity'', ''Battery'', ''Occupancy'', ''Illuminance'', ''Pressure'', ''Contact'',
      ''WaterLeak'', ''Smoke'', ''Tamper'', ''FanSpeed'', ''LinkQuality'', ''LastSeen'',
      ''LastUpdated'']"

section \<open>Example values\<close>

definition exampleDevice :: Device where
  "exampleDevice =
     \<lparr>dev_ID = ''x'', dev_Name = ''Lamp'', dev_Topic = ''lamp'', dev_Type = ''lightbulb'',
      dev_Features = \<lparr>ft_Temperature = False, ft_Humidity = False, ft_Battery = False,
        ft_Occupancy = False, ft_Illuminance = False, ft_Pressure = False, ft_Contact = False,
        ft_WaterLeak = False, ft_Smoke = False, ft_Tamper = False, ft_Brightness = True,
        ft_Color = False, ft_ColorTemperature = False, ft_Speed = False, ft_Direction = False,
        ft_Swing = False\<rparr>,
      dev_HomeKit = None, dev_Web = None\<rparr>"

definition exampleState :: State where
  \<comment> \<open>a stored state with \<^verbatim>\<open>Temperature = 20.0\<close>, last updated at instant 5\<close>
  "exampleState = (emptyState ''x'' ''Lamp'' 3 5)\<lparr>st_Temperature := Some 20\<rparr>"

definition exampleManager :: Manager where
  "exampleManager =
     \<lparr>dm_devices = [''x'' \<mapsto> exampleDevice], dm_states = [''x'' \<mapsto> exampleState],
      dm_eventBus = Some New,
      dm_mqttServer = \<lparr>mq_calls = [], mq_accepts = (\<lambda>topic. True)\<rparr>, dm_log = []\<rparr>"

definition exampleChange :: StateChangedEvent where
  \<comment> \<open>names only \<^verbatim>\<open>Humidity\<close>; the candidate carries \<^verbatim>\<open>Humidity = 55.0\<close>,
      \<^verbatim>\<open>Temperature = 99.0\<close>\<close>
  "exampleChange =
     \<lparr>sc_DeviceID = ''x'',
      sc_State = (emptyState ''x'' ''Lamp'' 900 900)
         \<lparr>st_Temperature := Some 99, st_Humidity := Some 55\<rparr>,
      sc_UpdatedFields = [''Humidity'']\<rparr>"

definition ghostChange :: StateChangedEvent where
  \<comment> \<open>an event of the ingestion hook's shape for an identifier that is not registered\<close>
  "ghostChange =
     \<lparr>sc_DeviceID = ''ghost'',
      sc_State = (emptyState ''ghost'' ''Ghost'' 900 900)\<lparr>st_On := Some True\<rparr>,
      sc_UpdatedFields = [''On'', ''LastSeen'', ''LastUpdated'']\<rparr>"

definition exampleEvent :: StateUpdateEvent where
  "exampleEvent =
     \<lparr>ev_Timestamp = 1000, ev_Source = ''eventbus'', ev_DeviceID = ''x'', ev_Name = ''Lamp'',
      ev_Temperature = Some 20, ev_Humidity = None, ev_Battery = None, ev_Occupancy = None,
      ev_Illuminance = None, ev_Pressure = None, ev_Contact = None, ev_WaterLeak = None,
      ev_Smoke = None, ev_Tamper = None, ev_On = Some True, ev_Brightness = Some 75,
      ev_Hue = None, ev_Saturation = None, ev_ColorTemp = None, ev_FanSpeed = None,
      ev_LinkQuality = 120, ev_LastSeen = 900, ev_LastUpdated = 900,
      ev_ConnectionState = ''connected'', ev_ConnectionNote = ''Last seen: 0s ago''\<rparr>"

definition exampleAccessory :: AccessoryInfo where
  \<comment> \<open>what \<^verbatim>\<open>createContactSensor\<close> fills in without the battery feature; the contact
      characteristic starts at 0\<close>
  "exampleAccessory =
     \<lparr>acc_DeviceType = ''contact_sensor'', acc_DeviceID = ''door'', acc_Temperature = None,
      acc_Humidity = None, acc_Occupancy = None, acc_Battery = None, acc_Contact = Some 0,
      acc_Leak = None, acc_Smoke = None, acc_Lightbulb = None, acc_Brightness = None,
      acc_Hue = None, acc_Saturation = None, acc_ColorTemperature = None, acc_Outlet = None,
      acc_Fan = None, acc_FanRotation = None\<rparr>"

definition exampleHAP :: HAPManager where
  "exampleHAP =
     \<lparr>hm_accessories = [''door'' \<mapsto> exampleAccessory], hm_outgoingUpdates = 0,
      hm_lastActivity = 0\<rparr>"

definition doorEvent :: "bool \<Rightarrow> StateUpdateEvent" where
  "doorEvent isClosed =
     exampleEvent\<lparr>ev_DeviceID := ''door'', ev_Name := ''Door'', ev_Contact := Some isClosed\<rparr>"

section \<open>Value codec\<close>

lemma float_quotient_truncation:
  fixes a b :: int and r :: real
  assumes b: "0 < b"
    and close: "\<bar>r - of_int a / of_int b\<bar> < 1 / of_int b"
    and exact: "b dvd a \<Longrightarrow> r = of_int a / of_int b"
  shows "\<lfloor>r\<rfloor> = a div b"
proof (cases "b dvd a")
  case True
  then have "r = of_int (a div b)" using exact b by (simp add: real_of_int_div)
  then show ?thesis by simp
next
  case False
  define m where "m = a mod b"
  have "0 \<le> m" "m < b" "m \<noteq> 0"
    using False b by (simp_all add: m_def dvd_eq_mod_eq_0)
  then have m: "1 \<le> m" "m \<le> b - 1" by linarith+
  have a: "a = b * (a div b) + m" by (simp add: m_def)
  have q: "real_of_int a / of_int b = of_int (a div b) + of_int m / of_int b"
    using b by (subst a) (simp add: field_simps)
  have lo: "1 / real_of_int b \<le> of_int m / of_int b"
    using m b by (simp add: divide_le_cancel)
  have hi: "real_of_int m / of_int b \<le> 1 - 1 / of_int b"
    using m b by (simp add: field_simps)
  have "of_int (a div b) < r" "r < of_int (a div b) + 1"
    using close q lo hi by linarith+
  then show ?thesis by linarith
qed

lemma floor_quotient:
  "\<lfloor>real_of_int a * real_of_int c / real_of_int b\<rfloor> = (a * c) div b"
  by (metis floor_divide_of_int_eq of_int_mult)

lemma Z2MBrightnessToHAP_div:
  "Z2MBrightnessToHAP z =
     (if z \<le> 0 then 0 else if z \<ge> 254 then 100 else (z * 100) div 254)"
  using floor_quotient[of z 100 254] by (simp add: Z2MBrightnessToHAP_def)

lemma HAPBrightnessToZ2M_div:
  "HAPBrightnessToZ2M h =
     (if h \<le> 0 then 0 else if h \<ge> 100 then 254 else (h * 254) div 100)"
  using floor_quotient[of h 254 100] by (simp add: HAPBrightnessToZ2M_def)

text \<open>
  Claim C3. For every integer \<open>p\<close> from 0 to 100, converting \<open>p\<close> from the percent scale to
  the bus scale and back gives a value that differs from \<open>p\<close> by at most 1.
\<close>

theorem brightness_round_trip:
  assumes "0 \<le> p" and "p \<le> 100"
  shows "\<bar>Z2MBrightnessToHAP (HAPBrightnessToZ2M p) - p\<bar> \<le> 1"
  using assms unfolding Z2MBrightnessToHAP_div HAPBrightnessToZ2M_div
  by (auto; presburger)

theorem brightness_round_trip_witness:
  "(0::int) \<le> 1 \<and> (1::int) \<le> 100 \<and> Z2MBrightnessToHAP (HAPBrightnessToZ2M 1) = 0 \<and>
   \<bar>Z2MBrightnessToHAP (HAPBrightnessToZ2M 1) - 1\<bar> \<le> 1"
  using brightness_round_trip[of 1]
  by (simp add: Z2MBrightnessToHAP_def HAPBrightnessToZ2M_def)

text \<open>
  Claim C9. Both brightness conversions are monotone over all integers: a larger argument
  never gives a smaller result.
\<close>

theorem brightness_monotone:
  assumes "a \<le> b"
  shows "Z2MBrightnessToHAP a \<le> Z2MBrightnessToHAP b \<and>
         HAPBrightnessToZ2M a \<le> HAPBrightnessToZ2M b"
  using assms unfolding Z2MBrightnessToHAP_div HAPBrightnessToZ2M_div
  by (auto; presburger)

theorem brightness_monotone_witness:
  "(253::int) \<le> 300 \<and> Z2MBrightnessToHAP 253 = 99 \<and> Z2MBrightnessToHAP 300 = 100 \<and>
   HAPBrightnessToZ2M 253 = 254 \<and> HAPBrightnessToZ2M 300 = 254 \<and>
   Z2MBrightnessToHAP 253 \<le> Z2MBrightnessToHAP 300 \<and>
   HAPBrightnessToZ2M 253 \<le> HAPBrightnessToZ2M 300"
  using brightness_monotone[of 253 300]
  by (simp add: Z2MBrightnessToHAP_def HAPBrightnessToZ2M_def)


section \<open>Event fabric: deduplication\<close>

lemma ptrBoolEqual_refl: "ptrBoolEqual a a"
  by (cases a) simp_all

lemma ptrIntEqual_refl: "ptrIntEqual a a"
  by (cases a) simp_all

lemma ptrFloatEqual_refl: "ptrFloatEqual a a"
  by (cases a) simp_all

lemma Equals_refl: "Equals e e"
  by (simp add: Equals_def ptrBoolEqual_refl ptrIntEqual_refl ptrFloatEqual_refl)

lemma Equals_ignores_Timestamp_Source:
  "Equals (e\<lparr>ev_Timestamp := t, ev_Source := s\<rparr>) l = Equals e l"
  by (simp add: Equals_def)

lemma Equals_same_logical:
  assumes "e\<lparr>ev_Timestamp := ev_Timestamp l, ev_Source := ev_Source l\<rparr> = l"
  shows "Equals e l"
proof -
  have "Equals (e\<lparr>ev_Timestamp := ev_Timestamp l, ev_Source := ev_Source l\<rparr>) l"
    unfolding assms by (rule Equals_refl)
  then show ?thesis by (simp only: Equals_ignores_Timestamp_Source)
qed

lemma PublishStateUpdate_New:
  "PublishStateUpdate New e =
     \<lparr>bus_lastStates = [ev_DeviceID e \<mapsto> e], bus_delivered = [e]\<rparr>"
  by (simp add: PublishStateUpdate_def New_def)

lemma publishAll_Nil: "publishAll [] = New"
  by (simp add: publishAll_def)

lemma publishAll_snoc: "publishAll (es @ [e]) = PublishStateUpdate (publishAll es) e"
  by (simp add: publishAll_def)

lemma lastForwarded_snoc:
  "lastForwarded (b\<lparr>bus_delivered := bus_delivered b @ [e], bus_lastStates := m\<rparr>) d =
     (if ev_DeviceID e = d then Some e else lastForwarded b d)"
  by (simp add: lastForwarded_def)

lemma PublishStateUpdate_keeps_cache:
  assumes "\<And>d. bus_lastStates b d = lastForwarded b d"
  shows "bus_lastStates (PublishStateUpdate b e) d = lastForwarded (PublishStateUpdate b e) d"
proof (cases "\<exists>l. bus_lastStates b (ev_DeviceID e) = Some l \<and> Equals e l")
  case True
  then have "PublishStateUpdate b e = b"
    by (auto simp: PublishStateUpdate_def)
  then show ?thesis by (simp add: assms)
next
  case False
  then have "PublishStateUpdate b e =
      b\<lparr>bus_delivered := bus_delivered b @ [e],
        bus_lastStates := (bus_lastStates b)(ev_DeviceID e \<mapsto> e)\<rparr>"
    by (auto simp: PublishStateUpdate_def split: option.splits)
  then show ?thesis by (simp add: lastForwarded_snoc assms)
qed

lemma cache_is_last_forwarded:
  "bus_lastStates (publishAll es) d = lastForwarded (publishAll es) d"
proof (induction es arbitrary: d rule: rev_induct)
  case Nil
  show ?case by (simp add: publishAll_Nil New_def lastForwarded_def)
next
  case (snoc e es)
  show ?case
    unfolding publishAll_snoc by (rule PublishStateUpdate_keeps_cache) (rule snoc.IH)
qed

lemma PublishStateUpdate_copy_dropped:
  "PublishStateUpdate (PublishStateUpdate b e) (e\<lparr>ev_Timestamp := t, ev_Source := s\<rparr>)
     = PublishStateUpdate b e"
proof (cases "\<exists>l. bus_lastStates b (ev_DeviceID e) = Some l \<and> Equals e l")
  case True
  then obtain l where l: "bus_lastStates b (ev_DeviceID e) = Some l" "Equals e l"
    by blast
  then have same: "PublishStateUpdate b e = b"
    by (simp add: PublishStateUpdate_def)
  have "Equals (e\<lparr>ev_Timestamp := t, ev_Source := s\<rparr>) l"
    using l(2) by (simp only: Equals_ignores_Timestamp_Source)
  then have "PublishStateUpdate b (e\<lparr>ev_Timestamp := t, ev_Source := s\<rparr>) = b"
    using l(1) by (simp add: PublishStateUpdate_def)
  with same show ?thesis by simp
next
  case False
  then have fwd: "PublishStateUpdate b e =
      b\<lparr>bus_delivered := bus_delivered b @ [e],
        bus_lastStates := (bus_lastStates b)(ev_DeviceID e \<mapsto> e)\<rparr>"
    by (auto simp: PublishStateUpdate_def split: option.splits)
  have "Equals (e\<lparr>ev_Timestamp := t, ev_Source := s\<rparr>) e"
    by (simp only: Equals_ignores_Timestamp_Source Equals_refl)
  then show ?thesis
    unfolding fwd by (simp add: PublishStateUpdate_def)
qed

text \<open>
  Claim C1, as the code has it. \<^verbatim>\<open>Equals\<close> leaves out the event's own \<^verbatim>\<open>Timestamp\<close> and its
  \<^verbatim>\<open>Source\<close> and compares every other field, the \<^verbatim>\<open>LastSeen\<close> and \<^verbatim>\<open>LastUpdated\<close> times
  included. So, on the bus reached by any sequence of publish calls: an event that agrees
  with the last event actually forwarded for its device in every field other than
  \<^verbatim>\<open>Timestamp\<close> and \<^verbatim>\<open>Source\<close> is dropped, and the bus, with what it has delivered, is left
  exactly as it was; publishing an event and then a copy of it that differs only in
  \<^verbatim>\<open>Timestamp\<close> and \<^verbatim>\<open>Source\<close> delivers nothing for the copy; and on a fresh bus the two
  together deliver exactly one event.
\<close>

theorem PublishStateUpdate_dedup:
  "(lastForwarded (publishAll es) (ev_DeviceID e) = Some l \<and>
      e\<lparr>ev_Timestamp := ev_Timestamp l, ev_Source := ev_Source l\<rparr> = l
        \<longrightarrow> PublishStateUpdate (publishAll es) e = publishAll es) \<and>
   bus_delivered (publishAll (es @ [e, e\<lparr>ev_Timestamp := t, ev_Source := s\<rparr>]))
     = bus_delivered (publishAll (es @ [e])) \<and>
   bus_delivered (publishAll [e, e\<lparr>ev_Timestamp := t, ev_Source := s\<rparr>]) = [e]"
proof (intro conjI impI)
  assume a: "lastForwarded (publishAll es) (ev_DeviceID e) = Some l \<and>
      e\<lparr>ev_Timestamp := ev_Timestamp l, ev_Source := ev_Source l\<rparr> = l"
  then have "Equals e l" using Equals_same_logical by blast
  moreover have "bus_lastStates (publishAll es) (ev_DeviceID e) = Some l"
    using a by (simp add: cache_is_last_forwarded)
  ultimately show "PublishStateUpdate (publishAll es) e = publishAll es"
    by (simp add: PublishStateUpdate_def)
next
  have "publishAll (es @ [e, e\<lparr>ev_Timestamp := t, ev_Source := s\<rparr>]) =
      PublishStateUpdate (PublishStateUpdate (publishAll es) e)
        (e\<lparr>ev_Timestamp := t, ev_Source := s\<rparr>)"
    by (simp add: publishAll_def)
  then show "bus_delivered (publishAll (es @ [e, e\<lparr>ev_Timestamp := t, ev_Source := s\<rparr>]))
      = bus_delivered (publishAll (es @ [e]))"
    by (simp only: PublishStateUpdate_copy_dropped publishAll_snoc)
next
  have "publishAll [e, e\<lparr>ev_Timestamp := t, ev_Source := s\<rparr>] =
      PublishStateUpdate (PublishStateUpdate New e) (e\<lparr>ev_Timestamp := t, ev_Source := s\<rparr>)"
    by (simp add: publishAll_def)
  then show "bus_delivered (publishAll [e, e\<lparr>ev_Timestamp := t, ev_Source := s\<rparr>]) = [e]"
    by (simp only: PublishStateUpdate_copy_dropped) (simp add: PublishStateUpdate_New)
qed

theorem PublishStateUpdate_dedup_witness:
  "lastForwarded (publishAll [exampleEvent\<lparr>ev_On := Some False\<rparr>, exampleEvent]) ''x''
     = Some exampleEvent \<and>
   bus_delivered (publishAll [exampleEvent\<lparr>ev_On := Some False\<rparr>, exampleEvent])
     = [exampleEvent\<lparr>ev_On := Some False\<rparr>, exampleEvent] \<and>
   PublishStateUpdate (publishAll [exampleEvent\<lparr>ev_On := Some False\<rparr>, exampleEvent])
       (exampleEvent\<lparr>ev_Timestamp := 2000, ev_Source := ''initial''\<rparr>)
     = publishAll [exampleEvent\<lparr>ev_On := Some False\<rparr>, exampleEvent] \<and>
   bus_delivered (publishAll [exampleEvent\<lparr>ev_On := Some False\<rparr>, exampleEvent,
       exampleEvent\<lparr>ev_Timestamp := 2000, ev_Source := ''initial''\<rparr>])
     = [exampleEvent\<lparr>ev_On := Some False\<rparr>, exampleEvent]"
proof -
  let ?A = "exampleEvent\<lparr>ev_On := Some False\<rparr>"
  let ?B' = "exampleEvent\<lparr>ev_Timestamp := 2000, ev_Source := ''initial''\<rparr>"
  have differ: "\<not> Equals exampleEvent ?A"
    by (simp add: Equals_def exampleEvent_def)
  have dev: "ev_DeviceID ?A = ''x''" "ev_DeviceID exampleEvent = ''x''" "ev_DeviceID ?B' = ''x''"
    by (simp_all add: exampleEvent_def)
  have "publishAll [?A, exampleEvent] = PublishStateUpdate (PublishStateUpdate New ?A) exampleEvent"
    by (simp add: publishAll_def)
  then have hist: "publishAll [?A, exampleEvent] =
      \<lparr>bus_lastStates = [''x'' \<mapsto> exampleEvent], bus_delivered = [?A, exampleEvent]\<rparr>"
    unfolding PublishStateUpdate_New by (simp add: PublishStateUpdate_def differ dev)
  have lf: "lastForwarded (publishAll [?A, exampleEvent]) ''x'' = Some exampleEvent"
    unfolding hist by (simp add: lastForwarded_def dev)
  have copy: "?B'\<lparr>ev_Timestamp := ev_Timestamp exampleEvent, ev_Source := ev_Source exampleEvent\<rparr>
      = exampleEvent"
    by (simp add: exampleEvent_def)
  have dropped: "PublishStateUpdate (publishAll [?A, exampleEvent]) ?B' = publishAll [?A, exampleEvent]"
    using PublishStateUpdate_dedup[where es = "[?A, exampleEvent]" and e = ?B'
        and l = exampleEvent and t = 2000 and s = "''initial''"] lf copy
    by (simp add: dev)
  have "publishAll [?A, exampleEvent, ?B'] = PublishStateUpdate (publishAll [?A, exampleEvent]) ?B'"
    using publishAll_snoc[of "[?A, exampleEvent]" ?B'] by simp
  then have all: "bus_delivered (publishAll [?A, exampleEvent, ?B']) = [?A, exampleEvent]"
    by (simp only: dropped) (simp add: hist)
  show ?thesis
    using lf dropped all by (simp add: hist)
qed

text \<open>
  Claim C1 as stated fails: two events for the same device that differ only in timestamps,
  the event \<^verbatim>\<open>Timestamp\<close> and the \<^verbatim>\<open>LastUpdated\<close> time, are both delivered.
\<close>

theorem PublishStateUpdate_dedup_counterexample:
  "bus_delivered (PublishStateUpdate (PublishStateUpdate New exampleEvent)
       (exampleEvent\<lparr>ev_Timestamp := 2000, ev_LastUpdated := 2000\<rparr>))
     = [exampleEvent, exampleEvent\<lparr>ev_Timestamp := 2000, ev_LastUpdated := 2000\<rparr>]"
proof -
  let ?e2 = "exampleEvent\<lparr>ev_Timestamp := 2000, ev_LastUpdated := 2000\<rparr>"
  have differ: "\<not> Equals ?e2 exampleEvent"
    by (simp add: Equals_def exampleEvent_def)
  have same_device: "ev_DeviceID ?e2 = ev_DeviceID exampleEvent"
    by simp
  show ?thesis
    unfolding PublishStateUpdate_New
    by (simp add: PublishStateUpdate_def differ same_device)
qed


section \<open>Device state manager: merge\<close>

lemma applyField_stateField:
  "stateField n (applyField cand f s) =
     (if f = n \<and> n \<in> set mergedNames then stateField n cand else stateField n s)"
  by (simp add: applyField_def stateField_def mergedNames_def)

lemma mergeFields_stateField:
  "stateField n (mergeFields cand fs s) =
     (if n \<in> set fs \<and> n \<in> set mergedNames then stateField n cand else stateField n s)"
  by (induction fs arbitrary: s) (auto simp: applyField_stateField)

lemma mergeFields_LastUpdated:
  "st_LastUpdated (mergeFields cand fs s) =
     (if ''LastUpdated'' \<in> set fs then st_LastUpdated cand else st_LastUpdated s)"
proof -
  have sf: "\<And>x. stateField ''LastUpdated'' x = Some (VTime (st_LastUpdated x))"
    by (simp add: stateField_def)
  have named: "''LastUpdated'' \<in> set mergedNames"
    by (simp add: mergedNames_def)
  show ?thesis
    using mergeFields_stateField[of "''LastUpdated''" cand fs s]
    by (simp add: sf named split: if_splits)
qed

lemma processStateEvent_known:
  assumes "dm_states dm (sc_DeviceID ev) = Some st"
  shows "processStateEvent ts tn dm ev =
           publishStateUpdate ts tn ''eventbus'' (sc_DeviceID ev)
             (mergeFields (sc_State ev) (sc_UpdatedFields ev) st)
             (dm\<lparr>dm_states := (dm_states dm)(sc_DeviceID ev \<mapsto>
                 mergeFields (sc_State ev) (sc_UpdatedFields ev) st)\<rparr>)"
proof (cases "sc_UpdatedFields ev")
  case Nil
  then show ?thesis using assms by (simp add: processStateEvent_def)
next
  case (Cons f fs)
  then show ?thesis using assms by (simp add: processStateEvent_def Let_def)
qed

lemma publishStateUpdate_states:
  "dm_states (publishStateUpdate ts tn src i st dm) = dm_states dm"
  by (simp add: publishStateUpdate_def split: option.splits)

lemma processStateEvent_states:
  assumes "dm_states dm (sc_DeviceID ev) = Some st"
  shows "dm_states (processStateEvent ts tn dm ev) (sc_DeviceID ev)
           = Some (mergeFields (sc_State ev) (sc_UpdatedFields ev) st)"
  by (simp add: processStateEvent_known[OF assms] publishStateUpdate_states)

lemma stateUpdateEvent_states_irrelevant:
  "stateUpdateEvent ts tn (dm\<lparr>dm_states := m\<rparr>) src i st = stateUpdateEvent ts tn dm src i st"
  by (simp add: stateUpdateEvent_def)

lemma processStateEvent_eventBus:
  assumes "dm_states dm (sc_DeviceID ev) = Some st" and "dm_eventBus dm = Some b"
  shows "dm_eventBus (processStateEvent ts tn dm ev) =
           Some (PublishStateUpdate b (stateUpdateEvent ts tn dm ''eventbus'' (sc_DeviceID ev)
                   (mergeFields (sc_State ev) (sc_UpdatedFields ev) st)))"
  using assms(2)
  by (simp add: processStateEvent_known[OF assms(1)] publishStateUpdate_def
        stateUpdateEvent_states_irrelevant)

lemma stateUpdateEvent_Source: "ev_Source (stateUpdateEvent ts tn dm src i st) = src"
  by (simp add: stateUpdateEvent_def Let_def split: prod.splits)

lemma exampleManager_states: "dm_states exampleManager ''x'' = Some exampleState"
  by (simp add: exampleManager_def)

lemma exampleChange_fields:
  "sc_DeviceID exampleChange = ''x''" "sc_UpdatedFields exampleChange = [''Humidity'']"
  by (simp_all add: exampleChange_def)

text \<open>
  Claim C2. For a stored state of a registered device and any \<^verbatim>\<open>StateChanged\<close> event for it,
  the stored state after the merge has, in every field, the candidate's value if the field is
  named in the event's field list (and is one the merge handles) and its prior value
  otherwise, whatever the candidate carries there.
\<close>

theorem selective_merge:
  assumes "dm_states dm (sc_DeviceID ev) = Some st"
  shows "\<exists>st'. dm_states (processStateEvent ts tn dm ev) (sc_DeviceID ev) = Some st' \<and>
           stateField n st' =
             (if n \<in> set (sc_UpdatedFields ev) \<and> n \<in> set mergedNames
              then stateField n (sc_State ev) else stateField n st)"
  using processStateEvent_states[OF assms] by (simp add: mergeFields_stateField)

theorem selective_merge_witness:
  "dm_states exampleManager (sc_DeviceID exampleChange) = Some exampleState \<and>
   st_Temperature exampleState = Some 20 \<and>
   st_Temperature (sc_State exampleChange) = Some 99 \<and>
   (\<exists>st'. dm_states (processStateEvent 1000 1000 exampleManager exampleChange) ''x'' = Some st' \<and>
          st_Temperature st' = Some 20 \<and> st_Humidity st' = Some 55)"
proof -
  have reg: "dm_states exampleManager (sc_DeviceID exampleChange) = Some exampleState"
    by (simp add: exampleManager_states exampleChange_fields)
  obtain st' where st': "dm_states (processStateEvent 1000 1000 exampleManager exampleChange)
        (sc_DeviceID exampleChange) = Some st'"
    using selective_merge[OF reg] by blast
  have "stateField ''Temperature'' st' = stateField ''Temperature'' exampleState"
    using selective_merge[OF reg, of 1000 1000 "''Temperature''"] st'
    by (simp add: exampleChange_fields)
  then have t: "st_Temperature st' = Some 20"
    by (simp add: stateField_def exampleState_def)
  have "stateField ''Humidity'' st' = stateField ''Humidity'' (sc_State exampleChange)"
    using selective_merge[OF reg, of 1000 1000 "''Humidity''"] st'
    by (simp add: exampleChange_fields mergedNames_def)
  then have h: "st_Humidity st' = Some 55"
    by (simp add: stateField_def exampleChange_def)
  show ?thesis
    using reg st' t h by (simp add: exampleChange_fields exampleState_def exampleChange_def)
qed


text \<open>
  Claim C4, as the code has it. For an event accepted for a registered device, the merge
  sets the stored last-updated time to the candidate's value when the field list names
  \<^verbatim>\<open>LastUpdated\<close> and leaves it as it was otherwise; no clock is read for it. The manager
  then hands to \<^verbatim>\<open>PublishStateUpdate\<close> the \<^verbatim>\<open>StateUpdate\<close> built from the state after the
  merge, with source tag \<^verbatim>\<open>eventbus\<close>.
\<close>

theorem merge_then_publish:
  assumes "dm_states dm (sc_DeviceID ev) = Some st"
    and "dm_eventBus dm = Some b"
  shows "\<exists>st'. dm_states (processStateEvent ts tn dm ev) (sc_DeviceID ev) = Some st' \<and>
           st_LastUpdated st' =
             (if ''LastUpdated'' \<in> set (sc_UpdatedFields ev)
              then st_LastUpdated (sc_State ev) else st_LastUpdated st) \<and>
           dm_eventBus (processStateEvent ts tn dm ev) =
             Some (PublishStateUpdate b
                (stateUpdateEvent ts tn dm ''eventbus'' (sc_DeviceID ev) st')) \<and>
           ev_Source (stateUpdateEvent ts tn dm ''eventbus'' (sc_DeviceID ev) st')
             = ''eventbus''"
  using processStateEvent_states[OF assms(1)] processStateEvent_eventBus[OF assms]
  by (simp add: mergeFields_LastUpdated stateUpdateEvent_Source)

theorem merge_then_publish_witness:
  "dm_states exampleManager (sc_DeviceID exampleChange) = Some exampleState \<and>
   dm_eventBus exampleManager = Some New \<and>
   (\<exists>st'. dm_states (processStateEvent 1000 1001 exampleManager exampleChange) ''x'' = Some st' \<and>
      st_LastUpdated st' = 5 \<and>
      dm_eventBus (processStateEvent 1000 1001 exampleManager exampleChange) =
        Some (PublishStateUpdate New (stateUpdateEvent 1000 1001 exampleManager ''eventbus'' ''x'' st')))"
proof -
  have reg: "dm_states exampleManager (sc_DeviceID exampleChange) = Some exampleState"
    by (simp add: exampleManager_states exampleChange_fields)
  have bus: "dm_eventBus exampleManager = Some New"
    by (simp add: exampleManager_def)
  have upd: "st_LastUpdated exampleState = 5"
    by (simp add: exampleState_def emptyState_def)
  obtain st' where st':
    "dm_states (processStateEvent 1000 1001 exampleManager exampleChange)
       (sc_DeviceID exampleChange) = Some st'"
    "st_LastUpdated st' =
       (if ''LastUpdated'' \<in> set (sc_UpdatedFields exampleChange)
        then st_LastUpdated (sc_State exampleChange) else st_LastUpdated exampleState)"
    "dm_eventBus (processStateEvent 1000 1001 exampleManager exampleChange) =
       Some (PublishStateUpdate New
          (stateUpdateEvent 1000 1001 exampleManager ''eventbus''
             (sc_DeviceID exampleChange) st'))"
    using merge_then_publish[OF reg bus, of 1000 1001] by blast
  have "st_LastUpdated st' = 5"
    using st'(2) by (simp add: exampleChange_fields upd)
  then show ?thesis
    using reg bus st'(1,3) by (simp add: exampleChange_fields)
qed

text \<open>
  Claim C4 as stated fails: an event that names only \<^verbatim>\<open>Humidity\<close>, processed when the clock
  reads 1000, leaves the stored last-updated time at its old value 5.
\<close>

theorem merge_last_updated_counterexample:
  "map_option st_LastUpdated
     (dm_states (processStateEvent 1000 1000 exampleManager exampleChange) ''x'') = Some 5 \<and>
   map_option st_LastUpdated
     (dm_states (processStateEvent 1000 1000 exampleManager exampleChange) ''x'') \<noteq> Some 1000"
proof -
  have reg: "dm_states exampleManager (sc_DeviceID exampleChange) = Some exampleState"
    by (simp add: exampleManager_states exampleChange_fields)
  have "st_LastUpdated (mergeFields (sc_State exampleChange) [''Humidity''] exampleState) = 5"
    unfolding mergeFields_LastUpdated by (simp add: exampleState_def emptyState_def)
  then show ?thesis
    using processStateEvent_states[OF reg, of 1000 1000]
    by (simp add: exampleChange_fields)
qed

text \<open>
  Claim C5. A \<^verbatim>\<open>StateChanged\<close> event whose identifier is not in the registry changes no
  device state, publishes nothing, and leaves the device table and the transport alone; the
  only effect is one warning in the log, and the processing loop goes on with the events
  that follow.
\<close>

theorem unknown_device_dropped:
  assumes "dm_states dm (sc_DeviceID ev) = None"
  shows "dm_states (processStateEvent ts tn dm ev) = dm_states dm \<and>
         dm_eventBus (processStateEvent ts tn dm ev) = dm_eventBus dm \<and>
         dm_devices (processStateEvent ts tn dm ev) = dm_devices dm \<and>
         dm_mqttServer (processStateEvent ts tn dm ev) = dm_mqttServer dm \<and>
         dm_log (processStateEvent ts tn dm ev) =
           dm_log dm @ [Warn ''Received state event for unknown device'' (sc_DeviceID ev)] \<and>
         ProcessStateEvents dm ((ts, tn, ev) # rest) =
           ProcessStateEvents
             (dm\<lparr>dm_log := dm_log dm @
                [Warn ''Received state event for unknown device'' (sc_DeviceID ev)]\<rparr>) rest"
  using assms by (simp add: processStateEvent_def)

theorem unknown_device_dropped_witness:
  "dm_states exampleManager (sc_DeviceID ghostChange) = None \<and>
   dm_states (processStateEvent 1000 1001 exampleManager ghostChange) = dm_states exampleManager \<and>
   dm_eventBus (processStateEvent 1000 1001 exampleManager ghostChange) = Some New \<and>
   dm_log (processStateEvent 1000 1001 exampleManager ghostChange) =
     [Warn ''Received state event for unknown device'' ''ghost''] \<and>
   (\<exists>st'. dm_states (ProcessStateEvents exampleManager
              [(1000, 1001, ghostChange), (2000, 2001, exampleChange)]) ''x'' = Some st' \<and>
           st_Humidity st' = Some 55)"
proof -
  have unknown: "dm_states exampleManager (sc_DeviceID ghostChange) = None"
    by (simp add: exampleManager_def ghostChange_def)
  let ?dm = "exampleManager\<lparr>dm_log := dm_log exampleManager @
      [Warn ''Received state event for unknown device'' (sc_DeviceID ghostChange)]\<rparr>"
  have reg: "dm_states ?dm (sc_DeviceID exampleChange) = Some exampleState"
    by (simp add: exampleManager_states exampleChange_fields)
  have "st_Humidity (mergeFields (sc_State exampleChange) [''Humidity''] exampleState) = Some 55"
    by (simp add: applyField_def exampleChange_def)
  then have later: "\<exists>st'. dm_states (ProcessStateEvents ?dm [(2000, 2001, exampleChange)]) ''x''
      = Some st' \<and> st_Humidity st' = Some 55"
    using processStateEvent_states[OF reg, of 2000 2001] by (simp add: exampleChange_fields)
  show ?thesis
    using unknown_device_dropped[OF unknown, of 1000 1001 "[(2000, 2001, exampleChange)]"]
      unknown later
    by (simp add: exampleManager_def ghostChange_def)
qed

section \<open>Device state manager: brightness command\<close>

lemma SetBrightness_registered:
  assumes "dm_devices dm deviceID = Some info"
  shows "SetBrightness dm deviceID v =
     (if mq_accepts (dm_mqttServer dm) (''zigbee2mqtt/'' @ dev_Topic info @ ''/set'')
      then None else Some PublishFailed,
      dm\<lparr>dm_mqttServer := (dm_mqttServer dm)\<lparr>mq_calls := mq_calls (dm_mqttServer dm) @
         [(''zigbee2mqtt/'' @ dev_Topic info @ ''/set'',
           marshalIntField ''brightness'' (HAPBrightnessToZ2M v), False, 0)]\<rparr>\<rparr>)"
  using assms by (simp add: SetBrightness_def Publish_def Let_def)

lemma marshal_brightness_75:
  "marshalIntField ''brightness'' (HAPBrightnessToZ2M 75) = ''{\"brightness\":190}''"
  by (simp add: marshalIntField_def HAPBrightnessToZ2M_def itoa_def digits.simps)

text \<open>
  Claim C6. For a registered device, a brightness command with value 75 makes exactly one
  call of the transport's publish primitive: the call list grows by the single entry with
  topic \<^verbatim>\<open>zigbee2mqtt/<routing key>/set\<close> and payload \<^verbatim>\<open>{"brightness":190}\<close> (not retained, QoS
  0), and nothing else in the manager changes.
\<close>

theorem SetBrightness_75:
  assumes "dm_devices dm deviceID = Some info"
  shows "snd (SetBrightness dm deviceID 75) =
           dm\<lparr>dm_mqttServer := (dm_mqttServer dm)\<lparr>mq_calls := mq_calls (dm_mqttServer dm) @
              [(''zigbee2mqtt/'' @ dev_Topic info @ ''/set'', ''{\"brightness\":190}'',
                False, 0)]\<rparr>\<rparr> \<and>
         HAPBrightnessToZ2M 75 = 190"
  by (simp add: SetBrightness_registered[OF assms] marshal_brightness_75)
    (simp add: HAPBrightnessToZ2M_def)

theorem SetBrightness_75_witness:
  "dm_devices exampleManager ''x'' = Some exampleDevice \<and>
   SetBrightness exampleManager ''x'' 75 =
     (None, exampleManager\<lparr>dm_mqttServer := \<lparr>mq_calls =
        [(''zigbee2mqtt/lamp/set'', ''{\"brightness\":190}'', False, 0)],
        mq_accepts = (\<lambda>topic. True)\<rparr>\<rparr>)"
proof -
  have reg: "dm_devices exampleManager ''x'' = Some exampleDevice"
    by (simp add: exampleManager_def)
  have ok: "fst (SetBrightness exampleManager ''x'' 75) = None"
    using SetBrightness_registered[OF reg, of 75] by (simp add: exampleManager_def)
  have "snd (SetBrightness exampleManager ''x'' 75) =
      exampleManager\<lparr>dm_mqttServer := \<lparr>mq_calls =
        [(''zigbee2mqtt/lamp/set'', ''{\"brightness\":190}'', False, 0)],
        mq_accepts = (\<lambda>topic. True)\<rparr>\<rparr>"
    using SetBrightness_75[OF reg] by (simp add: exampleManager_def exampleDevice_def)
  with ok reg show ?thesis by (simp add: prod_eq_iff)
qed


section \<open>Accessory adapter: contact sensor\<close>

text \<open>
  Claim C7. For an accessory that has a contact-sensor service and a state update whose
  contact field is set, \<^verbatim>\<open>UpdateState\<close> writes 0 to the contact characteristic when the bus
  value is \<^verbatim>\<open>true\<close> (closed) and 1 when it is \<^verbatim>\<open>false\<close> (open): the inverted mapping.
\<close>

theorem UpdateState_contact_inverted:
  assumes "hm_accessories hm (ev_DeviceID e) = Some a"
    and "acc_Contact a = Some old"
    and "ev_Contact e = Some c"
  shows "\<exists>a'. hm_accessories (UpdateState tn hm e) (ev_DeviceID e) = Some a' \<and>
           acc_Contact a' = Some (if c then 0 else 1) \<and>
           acc_Contact a' \<noteq> Some (if c then 1 else 0)"
  using assms by (simp add: UpdateState_def setValueIf_def Let_def)

theorem UpdateState_contact_inverted_witness:
  "hm_accessories exampleHAP (ev_DeviceID (doorEvent True)) = Some exampleAccessory \<and>
   acc_Contact exampleAccessory = Some 0 \<and>
   ev_Contact (doorEvent True) = Some True \<and>
   ev_Contact (doorEvent False) = Some False \<and>
   (\<exists>a'. hm_accessories (UpdateState 1000 exampleHAP (doorEvent True)) ''door'' = Some a' \<and>
      acc_Contact a' = Some 0) \<and>
   (\<exists>a'. hm_accessories (UpdateState 1000 exampleHAP (doorEvent False)) ''door'' = Some a' \<and>
      acc_Contact a' = Some 1)"
proof -
  have dev: "ev_DeviceID (doorEvent True) = ''door''" "ev_DeviceID (doorEvent False) = ''door''"
    by (simp_all add: doorEvent_def)
  have acc: "hm_accessories exampleHAP ''door'' = Some exampleAccessory"
    by (simp add: exampleHAP_def)
  have old: "acc_Contact exampleAccessory = Some 0"
    by (simp add: exampleAccessory_def)
  have c: "ev_Contact (doorEvent True) = Some True" "ev_Contact (doorEvent False) = Some False"
    by (simp_all add: doorEvent_def)
  show ?thesis
    using UpdateState_contact_inverted[of exampleHAP "doorEvent True" exampleAccessory 0 True 1000]
      UpdateState_contact_inverted[of exampleHAP "doorEvent False" exampleAccessory 0 False 1000]
      acc old c
    by (simp add: dev) blast
qed

section \<open>Device registry: duplicate identifiers\<close>

lemma LoadConfig_loop_seen:
  "d \<in> set ds \<Longrightarrow> dev_ID d \<in> seen \<Longrightarrow> isl (LoadConfig_loop i seen ds)"
proof (induction ds arbitrary: i seen)
  case Nil
  then show ?case by simp
next
  case (Cons a ds)
  show ?case
  proof (cases "d = a")
    case True
    with Cons.prems show ?thesis by simp
  next
    case False
    with Cons.prems have "d \<in> set ds" by simp
    then have "isl (LoadConfig_loop (Suc i) (insert (dev_ID a) seen) ds)"
      using Cons.IH Cons.prems(2) by blast
    then show ?thesis by (auto split: sum.splits)
  qed
qed

lemma LoadConfig_loop_not_distinct:
  "\<not> distinct (map dev_ID ds) \<Longrightarrow> isl (LoadConfig_loop i seen ds)"
proof (induction ds arbitrary: i seen)
  case Nil
  then show ?case by simp
next
  case (Cons d ds)
  show ?case
  proof (cases "dev_ID d \<in> dev_ID ` set ds")
    case True
    then obtain d' where "d' \<in> set ds" "dev_ID d' = dev_ID d" by auto
    then have "isl (LoadConfig_loop (Suc i) (insert (dev_ID d) seen) ds)"
      using LoadConfig_loop_seen[of d' ds "insert (dev_ID d) seen" "Suc i"] by simp
    then show ?thesis by (auto split: sum.splits)
  next
    case False
    with Cons.prems have "\<not> distinct (map dev_ID ds)" by simp
    then have "isl (LoadConfig_loop (Suc i) (insert (dev_ID d) seen) ds)"
      by (rule Cons.IH)
    then show ?thesis by (auto split: sum.splits)
  qed
qed

text \<open>
  Claim C8. When two entries of the decoded configuration document carry the same
  identifier, \<^verbatim>\<open>LoadConfig\<close> returns an error and no configuration, so no device is registered.
\<close>

theorem LoadConfig_rejects_duplicates:
  assumes "i < j" and "j < length ds" and "dev_ID (ds ! i) = dev_ID (ds ! j)"
  shows "\<exists>e. LoadConfig (Decoded ds) = Inl e"
proof -
  have "i < length (map dev_ID ds)" "j < length (map dev_ID ds)" "i \<noteq> j"
    "map dev_ID ds ! i = map dev_ID ds ! j"
    using assms by simp_all
  then have "\<not> distinct (map dev_ID ds)"
    using nth_eq_iff_index_eq by blast
  then have "isl (LoadConfig_loop 0 {} ds)"
    by (rule LoadConfig_loop_not_distinct)
  then show ?thesis
    by (auto simp: LoadConfig_def isl_def split: sum.splits)
qed

theorem LoadConfig_rejects_duplicates_witness:
  "(0::nat) < 1 \<and> 1 < length [exampleDevice, exampleDevice\<lparr>dev_Name := ''Other''\<rparr>] \<and>
   dev_ID ([exampleDevice, exampleDevice\<lparr>dev_Name := ''Other''\<rparr>] ! 0) =
     dev_ID ([exampleDevice, exampleDevice\<lparr>dev_Name := ''Other''\<rparr>] ! 1) \<and>
   (\<exists>e. LoadConfig (Decoded [exampleDevice, exampleDevice\<lparr>dev_Name := ''Other''\<rparr>]) = Inl e) \<and>
   LoadConfig (Decoded [exampleDevice, exampleDevice\<lparr>dev_Name := ''Other''\<rparr>])
     = Inl (DuplicateID ''x'')"
  using LoadConfig_rejects_duplicates[of 0 1 "[exampleDevice, exampleDevice\<lparr>dev_Name := ''Other''\<rparr>]"]
  by (simp add: LoadConfig_def exampleDevice_def isValidDeviceType_def)

section \<open>Bus ingestion: fan mode\<close>

lemma fst_whenOk_Some: "fst (whenOk (Some x) assign name p) = assign x (fst p)"
  by (simp add: whenOk_def)

lemma snd_whenOk_Some: "snd (whenOk (Some x) assign name p) = snd p @ [name]"
  by (simp add: whenOk_def)

lemma foldl_steps_snoc:
  "foldl (\<lambda>acc step. step acc) p (steps @ [f]) = f (foldl (\<lambda>acc step. step acc) p steps)"
  by simp

lemma parseSteps_last:
  "parseSteps msg = butlast (parseSteps msg) @
     [whenOk (asString (msg ''fan_mode''))
        (\<lambda>fanMode s. s\<lparr>st_FanSpeed := Some (fanModeSpeed fanMode)\<rparr>) ''FanSpeed'']"
  by (simp add: parseSteps_def)

lemma foldl_parseSteps:
  "foldl (\<lambda>acc step. step acc) p (parseSteps msg) =
     whenOk (asString (msg ''fan_mode''))
        (\<lambda>fanMode s. s\<lparr>st_FanSpeed := Some (fanModeSpeed fanMode)\<rparr>) ''FanSpeed''
        (foldl (\<lambda>acc step. step acc) p (butlast (parseSteps msg)))"
  using foldl_steps_snoc[of p "butlast (parseSteps msg)"] parseSteps_last[of msg]
  by metis

text \<open>
  Claim C10. When the inbound message carries a \<^verbatim>\<open>fan_mode\<close> string that is none of
  \<^verbatim>\<open>off\<close>, \<^verbatim>\<open>low\<close>, \<^verbatim>\<open>medium\<close>, \<^verbatim>\<open>high\<close>, \<^verbatim>\<open>auto\<close>, the parsed state has fan speed 50 and the
  field list names \<^verbatim>\<open>FanSpeed\<close>; the parser returns this pair and has no error result.
\<close>

theorem unknown_fan_mode_defaults:
  assumes "msg ''fan_mode'' = Some (JString mode)"
    and "mode \<notin> {''off'', ''low'', ''medium'', ''high'', ''auto''}"
  shows "st_FanSpeed (fst (parseZ2MMessage now device msg)) = Some 50 \<and>
         ''FanSpeed'' \<in> set (snd (parseZ2MMessage now device msg))"
proof -
  have m: "fanModeSpeed mode = 50"
    using assms(2) by (simp add: fanModeSpeed_def)
  show ?thesis
    by (simp add: parseZ2MMessage_def Let_def foldl_parseSteps assms(1)
          fst_whenOk_Some snd_whenOk_Some m)
qed

theorem unknown_fan_mode_defaults_witness:
  "[''fan_mode'' \<mapsto> JString ''turbo'', ''fan_speed'' \<mapsto> JNumber 80] ''fan_mode''
     = Some (JString ''turbo'') \<and>
   ''turbo'' \<notin> {''off'', ''low'', ''medium'', ''high'', ''auto''} \<and>
   st_FanSpeed (fst (parseZ2MMessage 7 exampleDevice
      [''fan_mode'' \<mapsto> JString ''turbo'', ''fan_speed'' \<mapsto> JNumber 80])) = Some 50 \<and>
   ''FanSpeed'' \<in> set (snd (parseZ2MMessage 7 exampleDevice
      [''fan_mode'' \<mapsto> JString ''turbo'', ''fan_speed'' \<mapsto> JNumber 80]))"
  using unknown_fan_mode_defaults[of
      "[''fan_mode'' \<mapsto> JString ''turbo'', ''fan_speed'' \<mapsto> JNumber 80]" "''turbo''"
      7 exampleDevice]
  by simp


end
